theory Spec2Isabelle
  imports Complex_Main
begin

section \<open>Hand-gesture chord player: the two programs of the repository\<close>

text \<open>
  The repository holds two stand-alone programs, \<^verbatim>\<open>main.py\<close> (a script whose state is a
  handful of module globals) and \<^verbatim>\<open>sample.py\<close> (class \<^verbatim>\<open>GestureChordPlayer\<close>). Each one
  counts extended fingers from the 21 hand landmarks of a frame and decides, from the count
  and a clock reading, which calls to make on the pygame mixer.

  The camera, the landmark detector, the clock and the mixer are outside the repository.
  A frame is therefore an input (the landmark list of the first hand, or nothing), a clock
  reading is an input (\<^verbatim>\<open>time.time()\<close>, a float of seconds, modelled by a real number;
  \<^verbatim>\<open>pygame.time.get_ticks()\<close>, an integer of milliseconds), and the calls
  \<^verbatim>\<open>pygame.mixer.stop()\<close> and \<^verbatim>\<open>Sound.play()\<close> are recorded, in order, as actions.
\<close>

subsection \<open>Landmarks and indexing\<close>

record landmark =
  lm_x :: real
  lm_y :: real
  lm_z :: real

text \<open>\<^verbatim>\<open>lm[i]\<close> with a constant, non-negative index: IndexError (here \<open>None\<close>) out of range.\<close>

definition landmark_at :: "landmark list \<Rightarrow> nat \<Rightarrow> landmark option" where
  "landmark_at lm i = (if i < length lm then Some (lm ! i) else None)"

subsection \<open>Mixer calls\<close>

datatype action = Stop | Play int

fun is_play :: "action \<Rightarrow> bool" where
  "is_play Stop = False"
| "is_play (Play c) = True"

definition count_plays :: "action list \<Rightarrow> nat" where
  "count_plays acts = length (filter is_play acts)"

text \<open>
  The mixer itself is pygame's. What the claims need of it is that \<^verbatim>\<open>pygame.mixer.stop()\<close>
  halts every channel and that \<^verbatim>\<open>Sound.play()\<close> starts one more playback; a sample that
  ends by itself only removes an entry, so the list below bounds what is playing from above.
\<close>

fun mixer_apply :: "int list \<Rightarrow> action \<Rightarrow> int list" where
  "mixer_apply playing Stop = []"
| "mixer_apply playing (Play c) = c # playing"

definition playing_after :: "action list \<Rightarrow> int list \<Rightarrow> int list" where
  "playing_after acts playing = foldl mixer_apply playing acts"

subsection \<open>main.py\<close>

definition AUDIO_FOLDER :: string where
  "AUDIO_FOLDER = ''audio''"

definition finger_chord_map :: "(int \<times> string) list" where
  "finger_chord_map =
     [(1, ''C_chord.wav''), (2, ''Am_chord.wav''), (3, ''F_chord.wav''),
      (4, ''G_chord.wav''), (5, ''C_chord.wav'')]"

text \<open>
  The globals of the script. A loaded \<^verbatim>\<open>pygame.mixer.Sound\<close> is represented by the path
  it was loaded from.
\<close>

record main_state =
  pygame_mixer_ok :: bool
  chord_sounds :: "int \<rightharpoonup> string"
  last_played_fingers :: int
  debounce_time :: real
  last_sound_play_time :: real

text \<open>
  The loading loop (lines 52-61). \<open>loadable\<close> says of a path that the file exists and that
  \<^verbatim>\<open>pygame.mixer.Sound\<close> accepts it.
\<close>

fun load_sounds :: "(string \<Rightarrow> bool) \<Rightarrow> (int \<times> string) list \<Rightarrow> (int \<rightharpoonup> string) \<Rightarrow> (int \<rightharpoonup> string)" where
  "load_sounds loadable [] sounds = sounds"
| "load_sounds loadable ((fingers, filename) # rest) sounds =
     (let filepath = AUDIO_FOLDER @ ''/'' @ filename
      in load_sounds loadable rest
           (if loadable filepath then sounds(fingers \<mapsto> filepath) else sounds))"

definition main_init :: "bool \<Rightarrow> (string \<Rightarrow> bool) \<Rightarrow> main_state" where
  "main_init mixer_ok loadable =
     \<lparr> pygame_mixer_ok = mixer_ok,
       chord_sounds = (if mixer_ok then load_sounds loadable finger_chord_map Map.empty
                       else Map.empty),
       last_played_fingers = - 1,
       debounce_time = 3 / 10,
       last_sound_play_time = 0 \<rparr>"

definition finger_tips :: "nat list" where
  "finger_tips = [8, 12, 16, 20]"

definition finger_pips :: "nat list" where
  "finger_pips = [6, 10, 14, 18]"

definition thumb_tip :: nat where "thumb_tip = 4"
definition thumb_ip :: nat where "thumb_ip = 3"
definition thumb_mcp :: nat where "thumb_mcp = 2"

text \<open>The loop of lines 124-126 over the zipped tip and PIP indices.\<close>

fun count_tips :: "landmark list \<Rightarrow> (nat \<times> nat) list \<Rightarrow> int \<Rightarrow> int option" where
  "count_tips lm [] fingers_up_count = Some fingers_up_count"
| "count_tips lm ((tip_id, pip_id) # rest) fingers_up_count =
     (case landmark_at lm tip_id of
        None \<Rightarrow> None
      | Some tip \<Rightarrow>
          (case landmark_at lm pip_id of
             None \<Rightarrow> None
           | Some pip \<Rightarrow>
               count_tips lm rest
                 (if lm_y tip < lm_y pip then fingers_up_count + 1 else fingers_up_count)))"

text \<open>
  The thumb test of lines 132-133. Python's \<^verbatim>\<open>and\<close> does not read \<^verbatim>\<open>lm[thumb_mcp]\<close>
  when the first comparison is false.
\<close>

definition count_thumb :: "landmark list \<Rightarrow> int \<Rightarrow> int option" where
  "count_thumb lm fingers_up_count =
     (case landmark_at lm thumb_tip of
        None \<Rightarrow> None
      | Some tip \<Rightarrow>
          (case landmark_at lm thumb_ip of
             None \<Rightarrow> None
           | Some ip \<Rightarrow>
               if lm_y tip < lm_y ip then
                 (case landmark_at lm thumb_mcp of
                    None \<Rightarrow> None
                  | Some mcp \<Rightarrow>
                      Some (if lm_y tip < lm_y mcp then fingers_up_count + 1
                            else fingers_up_count))
               else Some fingers_up_count))"

definition fingers_up :: "landmark list \<Rightarrow> int option" where
  "fingers_up lm =
     (case count_tips lm (zip finger_tips finger_pips) 0 of
        None \<Rightarrow> None
      | Some n \<Rightarrow> count_thumb lm n)"

text \<open>
  The chord playing logic of lines 150-173: \<open>hand\<close> is the truth value of
  \<^verbatim>\<open>results.multi_hand_landmarks\<close>. The \<^verbatim>\<open>elif\<close> belongs to the outer \<^verbatim>\<open>if\<close>.
\<close>

definition chord_logic :: "bool \<Rightarrow> int \<Rightarrow> real \<Rightarrow> main_state \<Rightarrow> action list \<times> main_state" where
  "chord_logic hand fingers_up_count current_time s =
     (if fingers_up_count \<noteq> last_played_fingers s \<and> pygame_mixer_ok s then
        (if current_time - last_sound_play_time s > debounce_time s then
           (if chord_sounds s fingers_up_count \<noteq> None then
              ([Stop, Play fingers_up_count],
               s\<lparr>last_played_fingers := fingers_up_count,
                 last_sound_play_time := current_time\<rparr>)
            else ([Stop], s\<lparr>last_played_fingers := 0\<rparr>))
         else ([], s))
      else if \<not> hand \<and> last_played_fingers s \<noteq> - 1 then
        ((if pygame_mixer_ok s then [Stop] else []), s\<lparr>last_played_fingers := - 1\<rparr>)
      else ([], s))"

text \<open>
  One iteration of the main loop on a frame that was read: the mixer calls, the new globals
  and the count that is drawn on the screen. \<open>None\<close> is an IndexError of the counting.
\<close>

definition main_frame :: "landmark list option \<Rightarrow> real \<Rightarrow> main_state \<Rightarrow> (action list \<times> main_state \<times> int) option" where
  "main_frame frame current_time s =
     (case frame of
        None \<Rightarrow>
          (let (acts, s') = chord_logic False 0 current_time s in Some (acts, s', 0))
      | Some lm \<Rightarrow>
          (case fingers_up lm of
             None \<Rightarrow> None
           | Some n \<Rightarrow>
               (let (acts, s') = chord_logic True n current_time s in Some (acts, s', n))))"

text \<open>
  An event of the trigger logic is (hand present, classification, timestamp). Without a
  hand the count stays at the 0 of line 100.
\<close>

fun main_event :: "bool \<times> int \<times> real \<Rightarrow> main_state \<Rightarrow> action list \<times> main_state" where
  "main_event (present, c, t) s = chord_logic present (if present then c else 0) t s"

fun main_run :: "(bool \<times> int \<times> real) list \<Rightarrow> main_state \<Rightarrow> action list list \<times> main_state" where
  "main_run [] s = ([], s)"
| "main_run (e # es) s =
     (let (acts, s') = main_event e s; (rest, s'') = main_run es s'
      in (acts # rest, s''))"

subsection \<open>sample.py\<close>

text \<open>
  The attributes of a \<^verbatim>\<open>GestureChordPlayer\<close> that the trigger logic reads or writes.
  \<^verbatim>\<open>__init__\<close> is taken to succeed (a missing sound file makes it raise before the loop
  starts).
\<close>

record player =
  chords :: "int \<rightharpoonup> string"
  last_played_chord :: "int option"
  chord_cooldown :: int
  last_play_time :: int

definition player_init :: player where
  "player_init =
     \<lparr> chords = [1 \<mapsto> ''C_chord.wav'', 2 \<mapsto> ''Am_chord.wav'',
                 3 \<mapsto> ''F_chord.wav'', 4 \<mapsto> ''G_chord.wav''],
       last_played_chord = None,
       chord_cooldown = 1000,
       last_play_time = 0 \<rparr>"

text \<open>
  The members of mediapipe's \<^verbatim>\<open>HandLandmark\<close> enumeration that \<^verbatim>\<open>count_extended_fingers\<close>
  names: INDEX_FINGER_TIP, MIDDLE_FINGER_TIP, RING_FINGER_TIP and PINKY_TIP, with the values
  that the comment of main.py (line 111) gives for the tips.
\<close>

definition hand_landmark_tips :: "nat list" where
  "hand_landmark_tips = [8, 12, 16, 20]"

fun count_extended :: "landmark list \<Rightarrow> nat list \<Rightarrow> int \<Rightarrow> int option" where
  "count_extended lm [] extended_fingers = Some extended_fingers"
| "count_extended lm (tip # rest) extended_fingers =
     (case landmark_at lm tip of
        None \<Rightarrow> None
      | Some t \<Rightarrow>
          (case landmark_at lm (tip - 2) of
             None \<Rightarrow> None
           | Some m \<Rightarrow>
               count_extended lm rest
                 (if lm_y t < lm_y m then extended_fingers + 1 else extended_fingers)))"

definition count_extended_fingers :: "landmark list \<Rightarrow> int option" where
  "count_extended_fingers lm = count_extended lm hand_landmark_tips 0"

definition play_chord :: "int \<Rightarrow> int \<Rightarrow> player \<Rightarrow> action list \<times> player" where
  "play_chord num_fingers current_time p =
     (if chords p num_fingers \<noteq> None \<and>
         (last_played_chord p \<noteq> Some num_fingers \<or>
          current_time - last_play_time p > chord_cooldown p)
      then ([Stop, Play num_fingers],
            p\<lparr>last_played_chord := Some num_fingers, last_play_time := current_time\<rparr>)
      else ([], p))"

text \<open>
  The body of the loop of \<^verbatim>\<open>run\<close> for one frame (lines 119-130); the detector is
  configured for at most one hand.
\<close>

definition sample_frame :: "landmark list option \<Rightarrow> int \<Rightarrow> player \<Rightarrow> (action list \<times> player) option" where
  "sample_frame frame current_time p =
     (case frame of
        None \<Rightarrow> Some ([], p)
      | Some lm \<Rightarrow>
          (case count_extended_fingers lm of
             None \<Rightarrow> None
           | Some num_fingers \<Rightarrow>
               Some (if num_fingers > 0 then play_chord num_fingers current_time p
                     else ([], p))))"

fun sample_event :: "bool \<times> int \<times> int \<Rightarrow> player \<Rightarrow> action list \<times> player" where
  "sample_event (present, c, t) p =
     (if present \<and> c > 0 then play_chord c t p else ([], p))"

fun sample_run :: "(bool \<times> int \<times> int) list \<Rightarrow> player \<Rightarrow> action list list \<times> player" where
  "sample_run [] p = ([], p)"
| "sample_run (e # es) p =
     (let (acts, p') = sample_event e p; (rest, p'') = sample_run es p'
      in (acts # rest, p''))"

subsection \<open>Two hands used as concrete inputs\<close>

text \<open>
  An upright open hand (every landmark with a larger index lies higher in the image, so
  every tip is above its joints) and its mirror image (every tip below its joints).
\<close>

definition open_hand :: "landmark list" where
  "open_hand = map (\<lambda>i. \<lparr> lm_x = 1 / 2, lm_y = 1 - real i / 32, lm_z = 0 \<rparr>) [0..<21]"

definition closed_hand :: "landmark list" where
  "closed_hand = map (\<lambda>i. \<lparr> lm_x = 1 / 2, lm_y = real i / 32, lm_z = 0 \<rparr>) [0..<21]"

definition all_loadable :: "string \<Rightarrow> bool" where
  "all_loadable path = True"

subsection \<open>Frame sequences\<close>

text \<open>The main loop of main.py over the frames that were read, each with its clock reading.\<close>

fun main_loop :: "(landmark list option \<times> real) list \<Rightarrow> main_state \<Rightarrow> ((action list \<times> int) list \<times> main_state) option" where
  "main_loop [] s = Some ([], s)"
| "main_loop ((frame, t) # rest) s =
     (case main_frame frame t s of
        None \<Rightarrow> None
      | Some (acts, s', n) \<Rightarrow>
          (case main_loop rest s' of
             None \<Rightarrow> None
           | Some (out, s'') \<Rightarrow> Some ((acts, n) # out, s'')))"

subsection \<open>The classifier in the words of the specification\<close>

text \<open>
  Section 4.1 of the specification: a non-thumb finger is extended when its tip lies above
  its PIP joint (smaller vertical coordinate), the thumb when its tip lies above both its IP
  and its MCP joint; the classification is the number of extended fingers.
\<close>

definition spec_fingers :: "(nat \<times> nat) list" where
  "spec_fingers = [(8, 6), (12, 10), (16, 14), (20, 18)]"

definition extended_finger :: "landmark list \<Rightarrow> nat \<times> nat \<Rightarrow> bool" where
  "extended_finger lm f = (lm_y (lm ! fst f) < lm_y (lm ! snd f))"

definition extended_thumb :: "landmark list \<Rightarrow> bool" where
  "extended_thumb lm = (lm_y (lm ! 4) < lm_y (lm ! 3) \<and> lm_y (lm ! 4) < lm_y (lm ! 2))"

definition classify_spec :: "landmark list \<Rightarrow> int" where
  "classify_spec lm =
     int (length (filter (extended_finger lm) spec_fingers))
       + (if extended_thumb lm then 1 else 0)"

text \<open>A frame on which the counting cannot raise: no hand, or a hand with all 21 landmarks.\<close>

definition complete_frame :: "landmark list option \<Rightarrow> bool" where
  "complete_frame frame = (case frame of None \<Rightarrow> True | Some lm \<Rightarrow> length lm = 21)"

text \<open>The count drawn for a frame, in the words of the specification (0 without a hand).\<close>

definition shown_count :: "landmark list option \<Rightarrow> int" where
  "shown_count frame = (case frame of None \<Rightarrow> 0 | Some lm \<Rightarrow> classify_spec lm)"

section \<open>Facts about the initial states\<close>

lemma main_init_sounds:
  "chord_sounds (main_init True all_loadable) =
     [1 \<mapsto> ''audio/C_chord.wav'', 2 \<mapsto> ''audio/Am_chord.wav'', 3 \<mapsto> ''audio/F_chord.wav'',
      4 \<mapsto> ''audio/G_chord.wav'', 5 \<mapsto> ''audio/C_chord.wav'']"
  by (simp add: main_init_def finger_chord_map_def AUDIO_FOLDER_def all_loadable_def)

lemma main_init_fields:
  "pygame_mixer_ok (main_init ok ld) = ok"
  "last_played_fingers (main_init ok ld) = - 1"
  "debounce_time (main_init ok ld) = 3 / 10"
  "last_sound_play_time (main_init ok ld) = 0"
  by (simp_all add: main_init_def)

section \<open>The trigger logic, event by event\<close>

subsection \<open>C1: the scenario 1, 1, 2 at 0 s, 0.1 s, 0.2 s\<close>

text \<open>
  C1, as stated, fails on main.py. From the initial globals (\<open>last_sound_play_time = 0\<close>)
  the three events at 0, 0.1 and 0.2 seconds all lie within the 0.3 s debounce of time 0, so
  nothing is emitted; and with the same events moved to a realistic clock reading the first
  one plays, but the change to class 2 comes 0.2 s after that play and is suppressed,
  because the debounce of main.py gates every change of count.
\<close>

theorem C1_counterexample:
  "fst (main_run [(True, 1, 0), (True, 1, 1 / 10), (True, 2, 2 / 10)] (main_init True all_loadable))
     = [ [], [], []]
   \<and> fst (main_run [(True, 1, 1000), (True, 1, 1000 + 1 / 10), (True, 2, 1000 + 2 / 10)]
            (main_init True all_loadable))
     = [ [Stop, Play 1], [], []]"
  by (simp add: chord_logic_def main_init_sounds main_init_fields)

text \<open>
  C1, amended. With classes 1 and 2 mapped and an interval of 0.3 s (300 ms): the player of
  sample.py, with nothing played yet, answers the events 1, 1, 2 at 0, 100 and 200 ms with
  stop and play(1), with nothing, and with stop and play(2); every play, the first one too,
  comes after a call of \<^verbatim>\<open>pygame.mixer.stop()\<close>. The loop of main.py, with nothing
  played yet and the first event more than 0.3 s after \<open>last_sound_play_time\<close>, answers the
  events 1, 1, 2 at \<open>T\<close>, \<open>T + 0.1\<close> and \<open>T + 0.2\<close> with stop and play(1), with nothing, and
  with nothing.
\<close>

theorem C1_amended:
  "(chords p 1 \<noteq> None \<and> chords p 2 \<noteq> None \<and> last_played_chord p = None \<and> chord_cooldown p = 300
      \<longrightarrow> fst (sample_run [(True, 1, 0), (True, 1, 100), (True, 2, 200)] p)
            = [ [Stop, Play 1], [], [Stop, Play 2]])
   \<and> (pygame_mixer_ok s \<and> chord_sounds s 1 \<noteq> None \<and> chord_sounds s 2 \<noteq> None
        \<and> last_played_fingers s = - 1 \<and> debounce_time s = 3 / 10
        \<and> T - last_sound_play_time s > 3 / 10
      \<longrightarrow> fst (main_run [(True, 1, T), (True, 1, T + 1 / 10), (True, 2, T + 2 / 10)] s)
            = [ [Stop, Play 1], [], []])"
  by (simp add: play_chord_def chord_logic_def)

theorem C1_amended_witness:
  "fst (sample_run [(True, 1, 0), (True, 1, 100), (True, 2, 200)] (player_init\<lparr>chord_cooldown := 300\<rparr>))
     = [ [Stop, Play 1], [], [Stop, Play 2]]
   \<and> fst (main_run [(True, 1, 2000), (True, 1, 2000 + 1 / 10), (True, 2, 2000 + 2 / 10)]
            (main_init True all_loadable))
     = [ [Stop, Play 1], [], []]"
  using C1_amended [of "player_init\<lparr>chord_cooldown := 300\<rparr>" "main_init True all_loadable" 2000]
  by (simp add: player_init_def main_init_sounds main_init_fields)

subsection \<open>C2: the same class again, after the interval\<close>

text \<open>
  C2, as stated, fails on main.py: the first event plays class 1 at time 1000, and class 1
  shown again at time 2000, far beyond the debounce, emits nothing and changes nothing,
  since the first test of the chord logic asks for a count different from the last one.
\<close>

theorem C2_counterexample:
  "main_event (True, 1, 2000)
     ((main_init True all_loadable)\<lparr>last_played_fingers := 1, last_sound_play_time := 1000\<rparr>)
   = ([], (main_init True all_loadable)\<lparr>last_played_fingers := 1, last_sound_play_time := 1000\<rparr>)
   \<and> snd (main_event (True, 1, 1000) (main_init True all_loadable))
     = (main_init True all_loadable)\<lparr>last_played_fingers := 1, last_sound_play_time := 1000\<rparr>
   \<and> 2000 - 1000 > debounce_time (main_init True all_loadable)"
  by (simp add: chord_logic_def main_init_sounds main_init_fields)

text \<open>
  C2, amended. In sample.py a hand-present event whose class \<open>c\<close> is positive, mapped and
  equal to the class played last re-triggers when it comes more than the cooldown after that
  play (stop, then play(c), and the player records \<open>c\<close> and the time), and is suppressed
  while the elapsed time is within the cooldown. In main.py a hand-present event whose count
  equals \<open>last_played_fingers\<close> emits nothing and changes nothing, whatever the time.
\<close>

theorem C2_amended:
  "(0 < c \<and> chords p c \<noteq> None \<and> last_played_chord p = Some c
      \<and> t - last_play_time p > chord_cooldown p
      \<longrightarrow> sample_event (True, c, t) p
            = ([Stop, Play c], p\<lparr>last_played_chord := Some c, last_play_time := t\<rparr>))
   \<and> (last_played_chord p = Some c \<and> t - last_play_time p \<le> chord_cooldown p
      \<longrightarrow> sample_event (True, c, t) p = ([], p))
   \<and> (c = last_played_fingers s \<longrightarrow> main_event (True, c, t') s = ([], s))"
  by (simp add: play_chord_def chord_logic_def)

theorem C2_amended_witness:
  "sample_event (True, 1, 1500) (player_init\<lparr>last_played_chord := Some 1, last_play_time := 400\<rparr>)
     = ([Stop, Play 1], player_init\<lparr>last_played_chord := Some 1, last_play_time := 1500\<rparr>)
   \<and> sample_event (True, 1, 1400) (player_init\<lparr>last_played_chord := Some 1, last_play_time := 400\<rparr>)
     = ([], player_init\<lparr>last_played_chord := Some 1, last_play_time := 400\<rparr>)
   \<and> main_event (True, 1, 2000)
       ((main_init True all_loadable)\<lparr>last_played_fingers := 1, last_sound_play_time := 1000\<rparr>)
     = ([], (main_init True all_loadable)\<lparr>last_played_fingers := 1, last_sound_play_time := 1000\<rparr>)"
  using C2_amended [of 1 "player_init\<lparr>last_played_chord := Some 1, last_play_time := 400\<rparr>" 1500
      "(main_init True all_loadable)\<lparr>last_played_fingers := 1, last_sound_play_time := 1000\<rparr>" 2000]
    C2_amended [of 1 "player_init\<lparr>last_played_chord := Some 1, last_play_time := 400\<rparr>" 1400
      "(main_init True all_loadable)\<lparr>last_played_fingers := 1, last_sound_play_time := 1000\<rparr>" 2000]
  by (simp add: player_init_def)

subsection \<open>C3: a count without a sample\<close>

text \<open>
  C3, as stated, fails on main.py: with class 1 played at time 1000, a hand showing 0
  fingers at time 2000 makes the loop call \<^verbatim>\<open>pygame.mixer.stop()\<close> (line 157 comes before
  the look-up of line 160) and sets \<open>last_played_fingers\<close> to 0.
\<close>

theorem C3_counterexample:
  "chord_sounds (main_init True all_loadable) 0 = None
   \<and> main_event (True, 0, 2000)
       ((main_init True all_loadable)\<lparr>last_played_fingers := 1, last_sound_play_time := 1000\<rparr>)
     = ([Stop], (main_init True all_loadable)\<lparr>last_played_fingers := 0, last_sound_play_time := 1000\<rparr>)"
  by (simp add: chord_logic_def main_init_sounds main_init_fields)

text \<open>
  C3, amended. In main.py a hand-present event whose count has no loaded sample emits exactly
  one stop and no play and sets \<open>last_played_fingers\<close> to 0 (the time of the last play is
  kept) when the count differs from \<open>last_played_fingers\<close>, the mixer is initialised and more
  than the debounce has passed since the last play; in every other case it emits nothing and
  leaves the state as it is.
\<close>

theorem C3_amended:
  "chord_sounds s c = None \<Longrightarrow>
   main_event (True, c, t) s =
     (if c \<noteq> last_played_fingers s \<and> pygame_mixer_ok s
         \<and> t - last_sound_play_time s > debounce_time s
      then ([Stop], s\<lparr>last_played_fingers := 0\<rparr>)
      else ([], s))"
  by (simp add: chord_logic_def)

theorem C3_amended_witness:
  "main_event (True, 0, 2000)
       ((main_init True all_loadable)\<lparr>last_played_fingers := 1, last_sound_play_time := 1000\<rparr>)
     = ([Stop], (main_init True all_loadable)\<lparr>last_played_fingers := 0, last_sound_play_time := 1000\<rparr>)
   \<and> main_event (True, 0, 1000 + 1 / 4)
       ((main_init True all_loadable)\<lparr>last_played_fingers := 1, last_sound_play_time := 1000\<rparr>)
     = ([], (main_init True all_loadable)\<lparr>last_played_fingers := 1, last_sound_play_time := 1000\<rparr>)"
  using C3_amended [of "(main_init True all_loadable)\<lparr>last_played_fingers := 1, last_sound_play_time := 1000\<rparr>" 0 2000]
    C3_amended [of "(main_init True all_loadable)\<lparr>last_played_fingers := 1, last_sound_play_time := 1000\<rparr>" 0 "1000 + 1 / 4"]
  by (simp add: main_init_sounds main_init_fields)

subsection \<open>C4: the hand is lost\<close>

text \<open>
  C4 is what main.py sets out to do (line 169: ``If no hand is detected, stop sound and
  reset'', with the guard \<open>last_played_fingers != -1\<close> that makes the reset happen once), and
  main.py misses it. A frame without a hand has count 0, which differs from the class that is
  sounding and from \<open>-1\<close>, so the first \<^verbatim>\<open>if\<close> of line 154 is taken and the \<^verbatim>\<open>elif\<close> of
  line 170 is reached only from \<open>last_played_fingers = 0\<close>. Evaluated on the code, with the
  mixer initialised and every sound loaded:
  \<^item> class 1 played at time 1000 and the hand lost a quarter of a second later: no stop is
    emitted and class 1 stays recorded as played;
  \<^item> class 1 played at time 1000, then frames without a hand at 1000.25, 1001, 1002 and
    1003: nothing, then a stop on every frame, not one stop;
  \<^item> nothing played yet and frames without a hand at 2000, 2001, 2002 and 2003: a stop on
    every frame, \<open>last_played_fingers\<close> going 0, \<open>-1\<close>, 0, \<open>-1\<close>, where the claim has no
    action and no change of state.
\<close>

theorem C4_hand_loss_defect:
  "main_event (False, 0, 1000 + 1 / 4)
       ((main_init True all_loadable)\<lparr>last_played_fingers := 1, last_sound_play_time := 1000\<rparr>)
     = ([], (main_init True all_loadable)\<lparr>last_played_fingers := 1, last_sound_play_time := 1000\<rparr>)
   \<and> fst (main_run [(True, 1, 1000), (False, 0, 1000 + 1 / 4), (False, 0, 1001), (False, 0, 1002),
                     (False, 0, 1003)] (main_init True all_loadable))
     = [ [Stop, Play 1], [], [Stop], [Stop], [Stop]]
   \<and> fst (main_run [(False, 0, 2000), (False, 0, 2001), (False, 0, 2002), (False, 0, 2003)]
            (main_init True all_loadable))
     = [ [Stop], [Stop], [Stop], [Stop]]
   \<and> map last_played_fingers
       [snd (main_run [(False, 0, 2000)] (main_init True all_loadable)),
        snd (main_run [(False, 0, 2000), (False, 0, 2001)] (main_init True all_loadable)),
        snd (main_run [(False, 0, 2000), (False, 0, 2001), (False, 0, 2002)] (main_init True all_loadable)),
        snd (main_run [(False, 0, 2000), (False, 0, 2001), (False, 0, 2002), (False, 0, 2003)]
               (main_init True all_loadable))]
     = [0, - 1, 0, - 1]"
  by (simp add: chord_logic_def main_init_sounds main_init_fields)

subsection \<open>C5: the same class, repeated within the interval\<close>

lemma main_run_repeat:
  "last_played_fingers s = c \<Longrightarrow>
   main_run (map (\<lambda>t. (True, c, t)) ts) s = (replicate (length ts) [], s)"
  by (induction ts) (simp_all add: chord_logic_def)

lemma sample_run_repeat:
  "last_played_chord p = Some c \<Longrightarrow> \<forall>t\<in>set ts. t - last_play_time p \<le> chord_cooldown p \<Longrightarrow>
   sample_run (map (\<lambda>t. (True, c, t)) ts) p = (replicate (length ts) [], p)"
  by (induction ts) (simp_all add: play_chord_def)

lemma concat_replicate_Nil: "concat (replicate n []) = []"
  by (induction n) simp_all

text \<open>The first event of a class is played exactly under these conditions on the state.\<close>

lemma main_event_first:
  "pygame_mixer_ok s \<Longrightarrow> chord_sounds s c \<noteq> None \<Longrightarrow> c \<noteq> last_played_fingers s \<Longrightarrow>
   t - last_sound_play_time s > debounce_time s \<Longrightarrow>
   main_event (True, c, t) s = ([Stop, Play c], s\<lparr>last_played_fingers := c, last_sound_play_time := t\<rparr>)"
  by (simp add: chord_logic_def)

lemma sample_event_first:
  "0 < c \<Longrightarrow> chords p c \<noteq> None \<Longrightarrow>
   last_played_chord p \<noteq> Some c \<or> t - last_play_time p > chord_cooldown p \<Longrightarrow>
   sample_event (True, c, t) p = ([Stop, Play c], p\<lparr>last_played_chord := Some c, last_play_time := t\<rparr>)"
  by (auto simp add: play_chord_def)

text \<open>
  C5. Take a sequence of hand-present events that all carry the same mapped class \<open>c\<close>, the
  first one arriving when the program plays it, the later ones all within the interval
  measured from that play. That the first event is played is not assumed but follows from
  the state: in main.py the mixer is initialised, \<open>c\<close> differs from \<open>last_played_fingers\<close> and
  more than \<open>debounce_time\<close> has passed since \<open>last_sound_play_time\<close>; in sample.py \<open>c\<close> is
  positive and either differs from \<open>last_played_chord\<close> or comes more than \<open>chord_cooldown\<close>
  after \<open>last_play_time\<close>. Then the first event emits stop and play(c), every later event
  emits nothing, and the whole sequence holds exactly one play action.
\<close>

theorem C5_one_play:
  "(pygame_mixer_ok s \<and> chord_sounds s c \<noteq> None \<and> c \<noteq> last_played_fingers s
      \<and> t0 - last_sound_play_time s > debounce_time s
      \<and> (\<forall>t\<in>set ts. t - t0 \<le> debounce_time s)
      \<longrightarrow> fst (main_run (map (\<lambda>t. (True, c, t)) (t0 # ts)) s)
            = [Stop, Play c] # replicate (length ts) []
        \<and> count_plays (concat (fst (main_run (map (\<lambda>t. (True, c, t)) (t0 # ts)) s))) = 1)
   \<and> (0 < c \<and> chords p c \<noteq> None
      \<and> (last_played_chord p \<noteq> Some c \<or> u0 - last_play_time p > chord_cooldown p)
      \<and> (\<forall>u\<in>set us. u - u0 \<le> chord_cooldown p)
      \<longrightarrow> fst (sample_run (map (\<lambda>u. (True, c, u)) (u0 # us)) p)
            = [Stop, Play c] # replicate (length us) []
        \<and> count_plays (concat (fst (sample_run (map (\<lambda>u. (True, c, u)) (u0 # us)) p))) = 1)"
proof (intro conjI impI)
  assume a: "pygame_mixer_ok s \<and> chord_sounds s c \<noteq> None \<and> c \<noteq> last_played_fingers s
      \<and> t0 - last_sound_play_time s > debounce_time s
      \<and> (\<forall>t\<in>set ts. t - t0 \<le> debounce_time s)"
  let ?s' = "s\<lparr>last_played_fingers := c, last_sound_play_time := t0\<rparr>"
  from a have first: "main_event (True, c, t0) s = ([Stop, Play c], ?s')"
    by (intro main_event_first) simp_all
  have rest: "main_run (map (\<lambda>t. (True, c, t)) ts) ?s' = (replicate (length ts) [], ?s')"
    by (rule main_run_repeat) simp
  show trace: "fst (main_run (map (\<lambda>t. (True, c, t)) (t0 # ts)) s)
      = [Stop, Play c] # replicate (length ts) []"
    using first rest by simp
  show "count_plays (concat (fst (main_run (map (\<lambda>t. (True, c, t)) (t0 # ts)) s))) = 1"
    by (simp only: trace) (simp add: count_plays_def concat_replicate_Nil)
next
  assume a: "0 < c \<and> chords p c \<noteq> None
      \<and> (last_played_chord p \<noteq> Some c \<or> u0 - last_play_time p > chord_cooldown p)
      \<and> (\<forall>u\<in>set us. u - u0 \<le> chord_cooldown p)"
  let ?p' = "p\<lparr>last_played_chord := Some c, last_play_time := u0\<rparr>"
  from a have first: "sample_event (True, c, u0) p = ([Stop, Play c], ?p')"
    by (intro sample_event_first) simp_all
  have rest: "sample_run (map (\<lambda>u. (True, c, u)) us) ?p' = (replicate (length us) [], ?p')"
    using a by (intro sample_run_repeat) simp_all
  show trace: "fst (sample_run (map (\<lambda>u. (True, c, u)) (u0 # us)) p)
      = [Stop, Play c] # replicate (length us) []"
    using first rest by simp
  show "count_plays (concat (fst (sample_run (map (\<lambda>u. (True, c, u)) (u0 # us)) p))) = 1"
    by (simp only: trace) (simp add: count_plays_def concat_replicate_Nil)
qed

theorem C5_one_play_witness:
  "fst (main_run [(True, 1, 1000), (True, 1, 1000 + 1 / 8), (True, 1, 1000 + 1 / 4)]
       (main_init True all_loadable)) = [ [Stop, Play 1], [], []]
   \<and> count_plays (concat (fst (main_run [(True, 1, 1000), (True, 1, 1000 + 1 / 8), (True, 1, 1000 + 1 / 4)]
       (main_init True all_loadable)))) = 1
   \<and> fst (sample_run [(True, 1, 5000), (True, 1, 5500), (True, 1, 6000)] player_init)
       = [ [Stop, Play 1], [], []]
   \<and> count_plays (concat (fst (sample_run [(True, 1, 5000), (True, 1, 5500), (True, 1, 6000)] player_init))) = 1"
proof -
  have m: "pygame_mixer_ok (main_init True all_loadable)
      \<and> chord_sounds (main_init True all_loadable) 1 \<noteq> None
      \<and> 1 \<noteq> last_played_fingers (main_init True all_loadable)
      \<and> 1000 - last_sound_play_time (main_init True all_loadable)
          > debounce_time (main_init True all_loadable)
      \<and> (\<forall>t\<in>set [1000 + 1 / 8, 1000 + 1 / 4]. t - 1000 \<le> debounce_time (main_init True all_loadable))"
    by (simp add: main_init_sounds main_init_fields)
  have q: "(0::int) < 1 \<and> chords player_init 1 \<noteq> None
      \<and> (last_played_chord player_init \<noteq> Some 1
           \<or> 5000 - last_play_time player_init > chord_cooldown player_init)
      \<and> (\<forall>u\<in>set [5500, 6000]. u - 5000 \<le> chord_cooldown player_init)"
    by (simp add: player_init_def)
  show ?thesis
    using C5_one_play [of "main_init True all_loadable" 1 1000 "[1000 + 1 / 8, 1000 + 1 / 4]"
        player_init 5000 "[5500, 6000]"] m q
    by (simp add: count_plays_def)
qed

subsection \<open>C6: stop before play, and at most one sample playing\<close>

lemma playing_after_append:
  "playing_after (xs @ ys) m = playing_after ys (playing_after xs m)"
  by (simp add: playing_after_def)

lemma block_playing:
  assumes "b = [] \<or> b = [Stop] \<or> (\<exists>c. b = [Stop, Play c])" and "length m \<le> 1"
  shows "length (playing_after (take n b) m) \<le> 1"
proof -
  consider "b = []" | "b = [Stop]" | c where "b = [Stop, Play c]" using assms(1) by blast
  then show ?thesis
  proof cases
    case 1 then show ?thesis using assms(2) by (simp add: playing_after_def)
  next
    case 2 then show ?thesis using assms(2) by (cases n) (simp_all add: playing_after_def)
  next
    case 3
    then show ?thesis using assms(2)
      by (cases n; cases "n - 1") (auto simp add: playing_after_def take_Cons')
  qed
qed

lemma blocks_playing:
  "\<forall>b\<in>set bs. b = [] \<or> b = [Stop] \<or> (\<exists>c. b = [Stop, Play c]) \<Longrightarrow> length m \<le> 1 \<Longrightarrow>
   length (playing_after (take n (concat bs)) m) \<le> 1"
proof (induction bs arbitrary: m n)
  case Nil
  then show ?case by (simp add: playing_after_def)
next
  case (Cons b bs)
  have b: "b = [] \<or> b = [Stop] \<or> (\<exists>c. b = [Stop, Play c])" using Cons.prems(1) by simp
  have whole: "length (playing_after b m) \<le> 1"
    using block_playing [OF b Cons.prems(2), of "length b"] by simp
  show ?case
  proof (cases "n \<le> length b")
    case True
    then show ?thesis using block_playing [OF b Cons.prems(2), of n] by simp
  next
    case False
    then have "take n (concat (b # bs)) = b @ take (n - length b) (concat bs)" by simp
    then show ?thesis
      using Cons.IH [of "playing_after b m" "n - length b"] Cons.prems(1) whole
      by (simp add: playing_after_append)
  qed
qed

lemma main_event_block:
  "fst (main_event (present, c, t) s) = [] \<or> fst (main_event (present, c, t) s) = [Stop]
     \<or> fst (main_event (present, c, t) s) = [Stop, Play (if present then c else 0)]"
  by (simp add: chord_logic_def)

lemma sample_event_block:
  "fst (sample_event (present, c, t) p) = [] \<or> fst (sample_event (present, c, t) p) = [Stop, Play c]"
  by (simp add: play_chord_def)

lemma main_run_blocks:
  "\<forall>b\<in>set (fst (main_run es s)). b = [] \<or> b = [Stop] \<or> (\<exists>c. b = [Stop, Play c])"
proof (induction es arbitrary: s)
  case Nil
  then show ?case by simp
next
  case (Cons e es)
  show ?case
  proof (cases e)
    case (fields present c t)
    show ?thesis
      using main_event_block [of present c t s] Cons.IH [of "snd (main_event e s)"] fields
      by (auto simp add: split_def Let_def simp del: main_event.simps)
  qed
qed

lemma sample_run_blocks:
  "\<forall>b\<in>set (fst (sample_run es p)). b = [] \<or> b = [Stop] \<or> (\<exists>c. b = [Stop, Play c])"
proof (induction es arbitrary: p)
  case Nil
  then show ?case by simp
next
  case (Cons e es)
  show ?case
  proof (cases e)
    case (fields present c t)
    show ?thesis
      using sample_event_block [of present c t p] Cons.IH [of "snd (sample_event e p)"] fields
      by (auto simp add: split_def Let_def simp del: sample_event.simps)
  qed
qed

text \<open>
  C6. In both programs the mixer calls of one step are nothing, a single stop, or a stop
  immediately followed by one play (of the count of the event; a frame without a hand has
  count 0 in main.py): a play is never emitted without the stop just before it. Hence,
  starting with nothing playing, after every prefix of the calls made over any event
  sequence at most one sample started by the program is playing.
\<close>

theorem C6_stop_before_play:
  "(fst (main_event (present, c, t) s) = [] \<or> fst (main_event (present, c, t) s) = [Stop]
      \<or> fst (main_event (present, c, t) s) = [Stop, Play (if present then c else 0)])
   \<and> (fst (sample_event (present, c, u) p) = []
      \<or> fst (sample_event (present, c, u) p) = [Stop, Play c])
   \<and> length (playing_after (take n (concat (fst (main_run es s)))) []) \<le> 1
   \<and> length (playing_after (take n (concat (fst (sample_run es' p)))) []) \<le> 1"
  using main_event_block [of present c t s] sample_event_block [of present c u p]
    blocks_playing [OF main_run_blocks, of "[]" n es s]
    blocks_playing [OF sample_run_blocks, of "[]" n es' p]
  by simp

theorem C6_stop_before_play_witness:
  "fst (main_event (True, 2, 2000) ((main_init True all_loadable)\<lparr>last_played_fingers := 1, last_sound_play_time := 1000\<rparr>))
     = [Stop, Play 2]
   \<and> fst (sample_event (True, 2, 500) (player_init\<lparr>last_played_chord := Some 1, last_play_time := 400\<rparr>))
     = [Stop, Play 2]
   \<and> playing_after (take 4 (concat (fst (main_run [(True, 1, 1000), (True, 2, 2000)] (main_init True all_loadable))))) []
     = [2]
   \<and> playing_after (take 4 (concat (fst (sample_run [(True, 1, 400), (True, 2, 500)] player_init)))) []
     = [2]"
  using C6_stop_before_play [where present = True and c = 2 and t = 2000 and u = 500 and n = 4
      and s = "(main_init True all_loadable)\<lparr>last_played_fingers := 1, last_sound_play_time := 1000\<rparr>"
      and p = "player_init\<lparr>last_played_chord := Some 1, last_play_time := 400\<rparr>"
      and es = "[]" and es' = "[]"]
    C6_stop_before_play [where present = True and c = 2 and t = 2000 and u = 500 and n = 4
      and s = "main_init True all_loadable" and p = player_init
      and es = "[(True, 1, 1000), (True, 2, 2000)]" and es' = "[(True, 1, 400), (True, 2, 500)]"]
  by (simp add: chord_logic_def main_init_sounds main_init_fields play_chord_def player_init_def
      playing_after_def)

subsection \<open>C8: a count without a sample never plays\<close>

lemma load_sounds_none:
  "sounds k = None \<Longrightarrow> k \<notin> fst ` set xs \<Longrightarrow> load_sounds loadable xs sounds k = None"
  by (induction xs arbitrary: sounds) (auto simp add: Let_def)

lemma main_init_zero: "chord_sounds (main_init ok loadable) 0 = None"
  by (simp add: main_init_def load_sounds_none finger_chord_map_def del: load_sounds.simps)

lemma main_event_sounds: "chord_sounds (snd (main_event e s)) = chord_sounds s"
  by (cases e) (simp add: chord_logic_def)

lemma main_run_sounds: "chord_sounds (snd (main_run es s)) = chord_sounds s"
proof (induction es arbitrary: s)
  case Nil
  then show ?case by simp
next
  case (Cons e es)
  show ?case using Cons.IH [of "snd (main_event e s)"] main_event_sounds [of e s]
    by (simp add: split_def Let_def)
qed

text \<open>
  C8. In main.py a hand-present event whose count has no loaded sample emits no play,
  whatever the time and the state; the count 0 has no sample in any state the loop reaches
  from its start (the keys of \<open>finger_chord_map\<close> are 1 to 5), so an event of count 0, with
  or without a hand, emits no play. In sample.py an event whose count is 0 (or negative) or
  has no entry in \<open>chords\<close> emits no play.
\<close>

theorem C8_unmapped_never_plays:
  "(chord_sounds s c = None \<longrightarrow> count_plays (fst (main_event (True, c, t) s)) = 0)
   \<and> count_plays (fst (main_event (present, 0, t) (snd (main_run es (main_init ok loadable))))) = 0
   \<and> (c \<le> 0 \<or> chords p c = None \<longrightarrow> count_plays (fst (sample_event (present, c, u) p)) = 0)"
proof -
  have z: "chord_sounds (snd (main_run es (main_init ok loadable))) 0 = None"
    by (simp add: main_run_sounds main_init_zero)
  show ?thesis using z by (auto simp add: chord_logic_def play_chord_def count_plays_def)
qed

theorem C8_unmapped_never_plays_witness:
  "count_plays (fst (main_event (True, 7, 2000) (main_init True all_loadable))) = 0
   \<and> fst (main_event (True, 7, 2000) (main_init True all_loadable)) = [Stop]
   \<and> count_plays (fst (main_event (True, 0, 3000) (snd (main_run [(True, 1, 2000)] (main_init True all_loadable))))) = 0
   \<and> count_plays (fst (sample_event (True, 5, 7000) player_init)) = 0"
  using C8_unmapped_never_plays [where s = "main_init True all_loadable" and c = 7 and t = 2000 and present = True
      and es = "[]" and ok = True and loadable = all_loadable and p = player_init and u = 7000]
   C8_unmapped_never_plays [where s = "main_init True all_loadable" and c = 5 and t = 3000 and present = True
      and es = "[(True, 1, 2000)]" and ok = True and loadable = all_loadable and p = player_init and u = 7000]
  by (simp add: chord_logic_def main_init_sounds main_init_fields player_init_def count_plays_def play_chord_def)

section \<open>The finger counting\<close>

lemma fingers_up_spec:
  "length lm = 21 \<Longrightarrow> fingers_up lm = Some (classify_spec lm)"
  by (simp add: fingers_up_def finger_tips_def finger_pips_def count_thumb_def landmark_at_def
      thumb_tip_def thumb_ip_def thumb_mcp_def classify_spec_def spec_fingers_def
      extended_finger_def extended_thumb_def)

lemma classify_spec_range: "0 \<le> classify_spec lm \<and> classify_spec lm \<le> 5"
proof -
  have "length (filter (extended_finger lm) spec_fingers) \<le> length spec_fingers"
    by (rule length_filter_le)
  then show ?thesis by (simp add: classify_spec_def spec_fingers_def)
qed

lemma count_extended_bounds:
  "count_extended lm tips n = Some m \<Longrightarrow> n \<le> m \<and> m \<le> n + int (length tips)"
proof (induction tips arbitrary: n)
  case Nil
  then show ?case by simp
next
  case (Cons tip tips)
  then show ?case
    by (fastforce split: option.splits if_splits)
qed

lemma count_extended_fingers_spec:
  "length lm = 21 \<Longrightarrow>
   count_extended_fingers lm = Some (int (length (filter (extended_finger lm) spec_fingers)))"
  by (simp add: count_extended_fingers_def hand_landmark_tips_def landmark_at_def
      spec_fingers_def extended_finger_def)

lemma open_hand_facts:
  "length open_hand = 21"
  "list_all (extended_finger open_hand) spec_fingers"
  "extended_thumb open_hand"
  by (simp_all add: open_hand_def spec_fingers_def extended_finger_def extended_thumb_def)

lemma closed_hand_facts:
  "length closed_hand = 21"
  "list_all (\<lambda>f. \<not> extended_finger closed_hand f) spec_fingers"
  "\<not> extended_thumb closed_hand"
  by (simp_all add: closed_hand_def spec_fingers_def extended_finger_def extended_thumb_def)

subsection \<open>C7: what the classifier returns\<close>

text \<open>
  C7, as stated, fails on the classifier of sample.py: on the open hand, where all five
  comparisons of the claim indicate extension, \<^verbatim>\<open>count_extended_fingers\<close> returns 4, since
  it never looks at the thumb.
\<close>

theorem C7_counterexample:
  "length open_hand = 21
   \<and> list_all (extended_finger open_hand) spec_fingers \<and> extended_thumb open_hand
   \<and> count_extended_fingers open_hand = Some 4"
  by (simp add: open_hand_facts count_extended_fingers_spec)
    (simp add: open_hand_def spec_fingers_def extended_finger_def)

text \<open>
  C7, amended. For every landmark list of exactly 21 points the finger counting of main.py
  returns the number of extended fingers, a number from 0 to 5, where a non-thumb finger
  is extended iff the vertical coordinate of its tip is smaller than that of its PIP joint
  and the thumb iff that of its tip is smaller than those of both its IP and its MCP joint;
  it returns 5 when all five comparisons indicate extension and 0 when none does. On the
  same input \<^verbatim>\<open>count_extended_fingers\<close> of sample.py returns the number of extended
  non-thumb fingers only.
\<close>

theorem C7_amended:
  "length lm = 21 \<Longrightarrow>
   fingers_up lm = Some (classify_spec lm)
   \<and> 0 \<le> classify_spec lm \<and> classify_spec lm \<le> 5
   \<and> (list_all (extended_finger lm) spec_fingers \<and> extended_thumb lm \<longrightarrow> fingers_up lm = Some 5)
   \<and> (list_all (\<lambda>f. \<not> extended_finger lm f) spec_fingers \<and> \<not> extended_thumb lm
        \<longrightarrow> fingers_up lm = Some 0)
   \<and> count_extended_fingers lm = Some (int (length (filter (extended_finger lm) spec_fingers)))"
proof -
  assume len: "length lm = 21"
  have five: "list_all (extended_finger lm) spec_fingers \<and> extended_thumb lm \<longrightarrow> classify_spec lm = 5"
    by (simp add: classify_spec_def spec_fingers_def)
  have zero: "list_all (\<lambda>f. \<not> extended_finger lm f) spec_fingers \<and> \<not> extended_thumb lm
        \<longrightarrow> classify_spec lm = 0"
    by (simp add: classify_spec_def spec_fingers_def)
  show ?thesis
    using fingers_up_spec [OF len] classify_spec_range [of lm] five zero
      count_extended_fingers_spec [OF len]
    by simp
qed

theorem C7_amended_witness:
  "fingers_up open_hand = Some 5 \<and> fingers_up closed_hand = Some 0
   \<and> count_extended_fingers open_hand = Some 4 \<and> count_extended_fingers closed_hand = Some 0"
proof -
  have o: "fingers_up open_hand = Some 5 \<and> count_extended_fingers open_hand = Some 4"
    using C7_amended [OF open_hand_facts(1)] open_hand_facts(2,3)
    by (auto simp add: spec_fingers_def)
  have c: "fingers_up closed_hand = Some 0 \<and> count_extended_fingers closed_hand = Some 0"
    using C7_amended [OF closed_hand_facts(1)] closed_hand_facts(2,3)
    by (auto simp add: spec_fingers_def)
  show ?thesis using o c by simp
qed

subsection \<open>C10: sample.py counts four fingers\<close>

lemma landmark_at_update:
  "i \<noteq> j \<Longrightarrow> landmark_at (lm[i := v]) j = landmark_at lm j"
  by (simp add: landmark_at_def)

lemma count_extended_fingers_thumb:
  "count_extended_fingers (lm[1 := a, 2 := b, 3 := c, 4 := d]) = count_extended_fingers lm"
  by (simp add: count_extended_fingers_def hand_landmark_tips_def landmark_at_update
      cong: option.case_cong)

lemma play_chord_plays:
  "Play k \<in> set (fst (play_chord n t p)) \<Longrightarrow> k = n"
  by (simp add: play_chord_def split: if_splits)

text \<open>
  C10. \<^verbatim>\<open>count_extended_fingers\<close> of sample.py reads the four non-thumb tips and their
  joints only: whatever it returns lies between 0 and 4, it does return on every list of 21
  landmarks, and replacing the four thumb landmarks (indices 1 to 4) does not change its
  result. So no frame makes the player call play for class 5, whatever its \<open>chords\<close> hold.
\<close>

theorem C10_sample_four_fingers:
  "(count_extended_fingers lm = Some n \<longrightarrow> 0 \<le> n \<and> n \<le> 4)
   \<and> (length lm = 21 \<longrightarrow> (\<exists>k. count_extended_fingers lm = Some k))
   \<and> count_extended_fingers (lm[1 := a, 2 := b, 3 := c, 4 := d]) = count_extended_fingers lm
   \<and> (sample_frame (Some lm) t p = Some (acts, p') \<longrightarrow> Play 5 \<notin> set acts)"
proof (intro conjI impI)
  assume "count_extended_fingers lm = Some n"
  then show "0 \<le> n" "n \<le> 4"
    using count_extended_bounds [of lm hand_landmark_tips 0 n]
    by (simp_all add: count_extended_fingers_def hand_landmark_tips_def)
next
  assume "length lm = 21"
  then show "\<exists>k. count_extended_fingers lm = Some k"
    by (simp add: count_extended_fingers_spec)
next
  show "count_extended_fingers (lm[1 := a, 2 := b, 3 := c, 4 := d]) = count_extended_fingers lm"
    by (rule count_extended_fingers_thumb)
next
  assume fr: "sample_frame (Some lm) t p = Some (acts, p')"
  show "Play 5 \<notin> set acts"
  proof
    assume pl: "Play 5 \<in> set acts"
    from fr obtain m where m: "count_extended_fingers lm = Some m"
      and res: "(acts, p') = (if m > 0 then play_chord m t p else ([], p))"
      by (auto simp add: sample_frame_def split: option.splits)
    have "m \<le> 4"
      using m count_extended_bounds [of lm hand_landmark_tips 0 m]
      by (simp add: count_extended_fingers_def hand_landmark_tips_def)
    moreover have "m = 5"
      using pl res play_chord_plays [of 5 m t p]
      by (cases "m > 0") (auto simp add: fst_def split: prod.splits)
    ultimately show False by simp
  qed
qed

theorem C10_sample_four_fingers_witness:
  "count_extended_fingers open_hand = Some 4
   \<and> sample_frame (Some open_hand) 5000 (player_init\<lparr>chords := (chords player_init)(5 \<mapsto> ''E_chord.wav'')\<rparr>)
     = Some ([Stop, Play 4],
         player_init\<lparr>chords := (chords player_init)(5 \<mapsto> ''E_chord.wav''),
                      last_played_chord := Some 4, last_play_time := 5000\<rparr>)"
proof -
  have c: "count_extended_fingers open_hand = Some 4"
    using count_extended_fingers_spec [of open_hand]
    by (simp add: open_hand_def spec_fingers_def extended_finger_def)
  have f: "sample_frame (Some open_hand) 5000 (player_init\<lparr>chords := (chords player_init)(5 \<mapsto> ''E_chord.wav'')\<rparr>)
     = Some ([Stop, Play 4],
         player_init\<lparr>chords := (chords player_init)(5 \<mapsto> ''E_chord.wav''),
                      last_played_chord := Some 4, last_play_time := 5000\<rparr>)"
    by (simp add: sample_frame_def c play_chord_def player_init_def)
  show ?thesis
    using C10_sample_four_fingers [of open_hand 4 _ _ _ _ 5000
        "player_init\<lparr>chords := (chords player_init)(5 \<mapsto> ''E_chord.wav'')\<rparr>" "[Stop, Play 4]"
        "player_init\<lparr>chords := (chords player_init)(5 \<mapsto> ''E_chord.wav''),
                      last_played_chord := Some 4, last_play_time := 5000\<rparr>"] c f
    by simp
qed

section \<open>main.py without a mixer\<close>

lemma chord_logic_no_mixer:
  "\<not> pygame_mixer_ok s \<Longrightarrow> last_played_fingers s = - 1 \<Longrightarrow> chord_logic hand n t s = ([], s)"
  by (simp add: chord_logic_def)

lemma main_run_no_mixer:
  "\<not> pygame_mixer_ok s \<Longrightarrow> last_played_fingers s = - 1 \<Longrightarrow>
   main_run es s = (replicate (length es) [], s)"
proof (induction es)
  case Nil
  then show ?case by simp
next
  case (Cons e es)
  then show ?case by (cases e) (simp add: chord_logic_no_mixer)
qed

lemma main_loop_no_mixer:
  "\<not> pygame_mixer_ok s \<Longrightarrow> last_played_fingers s = - 1 \<Longrightarrow>
   list_all (\<lambda>f. complete_frame (fst f)) frames \<Longrightarrow>
   main_loop frames s = Some (map (\<lambda>f. ([], shown_count (fst f))) frames, s)"
proof (induction frames)
  case Nil
  then show ?case by simp
next
  case (Cons f frames)
  obtain frame t where f: "f = (frame, t)" by (cases f)
  have step: "main_frame frame t s = Some ([], s, shown_count frame)"
    using Cons.prems f
    by (cases frame)
      (simp_all add: main_frame_def chord_logic_no_mixer fingers_up_spec complete_frame_def
        shown_count_def)
  show ?case using Cons step f by simp
qed

text \<open>
  C9. When \<^verbatim>\<open>pygame.mixer.init()\<close> fails, \<open>pygame_mixer_ok\<close> is false, and from the initial
  globals every event sequence emits no mixer call at all and leaves \<open>last_played_fingers\<close>
  at \<open>-1\<close>. The frames are still processed: over every sequence of frames whose hands have
  21 landmarks the loop runs to the end, and the count it draws for each frame is the
  classification of that frame.
\<close>

theorem C9_no_mixer:
  "main_run es (main_init False loadable) = (replicate (length es) [], main_init False loadable)
   \<and> last_played_fingers (snd (main_run es (main_init False loadable))) = - 1
   \<and> (list_all (\<lambda>f. complete_frame (fst f)) frames \<longrightarrow>
        main_loop frames (main_init False loadable) =
          Some (map (\<lambda>f. ([], shown_count (fst f))) frames, main_init False loadable))"
  using main_run_no_mixer [of "main_init False loadable" es]
    main_loop_no_mixer [of "main_init False loadable" frames]
  by (simp add: main_init_fields)

theorem C9_no_mixer_witness:
  "main_run [(True, 1, 1000), (True, 2, 2000), (False, 0, 3000)] (main_init False all_loadable)
     = ([ [], [], []], main_init False all_loadable)
   \<and> main_loop [(Some open_hand, 1000), (None, 2000), (Some closed_hand, 3000)] (main_init False all_loadable)
     = Some ([([], 5), ([], 0), ([], 0)], main_init False all_loadable)"
  using C9_no_mixer [of "[(True, 1, 1000), (True, 2, 2000), (False, 0, 3000)]" all_loadable
      "[(Some open_hand, 1000), (None, 2000), (Some closed_hand, 3000)]"]
    open_hand_facts closed_hand_facts
  by (simp add: classify_spec_def spec_fingers_def complete_frame_def shown_count_def)

end
